theory Spec2Isabelle
  imports Main
begin

section \<open>The packaging script \<open>client_model/setup.py\<close>\<close>

text \<open>
  The repository's only source file is a 23-line Python script.  It imports \<open>setup\<close> from
  \<open>setuptools\<close> and calls it once with twelve keyword arguments, all of them literals.
  The script is modelled as the list of its top-level statements; the keyword arguments
  of the call are kept as an association list in the order of the source.
\<close>

subsection \<open>Values and statements\<close>

text \<open>
  The literals of the script: a string, a list of strings (\<open>packages\<close>, \<open>requires\<close>,
  \<open>classifiers\<close>) and a dictionary from strings to strings (\<open>package_dir\<close>).
\<close>

datatype pyval =
    Str string
  | StrList "string list"
  | StrDict "(string \<times> string) list"

text \<open>
  Top-level statements of a Python module.  The script uses \<open>ImportFrom\<close> and
  \<open>CallStmt\<close> only; the other three are the statements that would bind a name to a
  function, a class or a value, and are what a definition of \<open>encode\<close> or
  \<open>MetricFamily\<close> would have to be.
\<close>

datatype stmt =
    ImportFrom string "string list"
  | FunctionDef string
  | ClassDef string
  | Assign string pyval
  | CallStmt string "(string \<times> pyval) list"

subsection \<open>The script\<close>

text \<open>Lines 5 to 23: the keyword arguments of the call of \<open>setup\<close>.\<close>

definition setup_kwargs :: "(string \<times> pyval) list" where
  "setup_kwargs =
    [(''name'', Str ''elasticsearch_client_model''),
     (''version'', Str ''0.0.1''),
     (''author'', Str ''Matt T. Proud''),
     (''author_email'', Str ''matt.proud@gmail.com''),
     (''description'', Str ''Data model artifacts for the Prometheus client.''),
     (''license'', Str ''Apache License 2.0''),
     (''url'', Str ''http://github.com/Schneizelw/elasticsearch/client_model''),
     (''packages'', StrList [''elasticsearch'', ''elasticsearch/client'',
                             ''elasticsearch/client/model'']),
     (''package_dir'', StrDict [('''', ''python'')]),
     (''requires'', StrList [''protobuf(==2.4.1)'']),
     (''platforms'', Str ''Platform Independent''),
     (''classifiers'', StrList
        [''Development Status :: 3 - Alpha'',
         ''Intended Audience :: Developers'',
         ''Intended Audience :: System Administrators'',
         ''License :: OSI Approved :: Apache Software License'',
         ''Operating System :: OS Independent'',
         ''Topic :: Software Development :: Testing'',
         ''Topic :: System :: Monitoring''])]"

text \<open>Line 3 (\<open>from setuptools import setup\<close>) and the call of lines 5 to 23.\<close>

definition setup_py :: "stmt list" where
  "setup_py = [ImportFrom ''setuptools'' [''setup''], CallStmt ''setup'' setup_kwargs]"

text \<open>The source files of the repository, by path.\<close>

definition repository :: "(string \<times> stmt list) list" where
  "repository = [(''client_model/setup.py'', setup_py)]"

subsection \<open>What a module binds and what it calls\<close>

text \<open>The names a statement binds at module level.\<close>

fun bound_names :: "stmt \<Rightarrow> string list" where
  "bound_names (ImportFrom m ns) = ns"
| "bound_names (FunctionDef n) = [n]"
| "bound_names (ClassDef n) = [n]"
| "bound_names (Assign n v) = [n]"
| "bound_names (CallStmt f kws) = []"

text \<open>The names a statement defines itself, as a function, a class or a value.\<close>

fun defined_names :: "stmt \<Rightarrow> string list" where
  "defined_names (FunctionDef n) = [n]"
| "defined_names (ClassDef n) = [n]"
| "defined_names (Assign n v) = [n]"
| "defined_names (ImportFrom m ns) = []"
| "defined_names (CallStmt f kws) = []"

definition module_bound :: "stmt list \<Rightarrow> string list" where
  "module_bound ss = concat (map bound_names ss)"

definition module_defined :: "stmt list \<Rightarrow> string list" where
  "module_defined ss = concat (map defined_names ss)"

definition repository_bound :: "string list" where
  "repository_bound = concat (map (\<lambda>f. module_bound (snd f)) repository)"

definition repository_defined :: "string list" where
  "repository_defined = concat (map (\<lambda>f. module_defined (snd f)) repository)"

text \<open>The calls a module makes at top level: the callee and its keyword arguments.\<close>

fun calls :: "stmt list \<Rightarrow> (string \<times> (string \<times> pyval) list) list" where
  "calls [] = []"
| "calls (CallStmt f kws # ss) = (f, kws) # calls ss"
| "calls (s # ss) = calls ss"

text \<open>
  A statement of a packaging manifest: an import from \<open>setuptools\<close>, or a call of
  \<open>setup\<close>.  A module is a manifest when it has no other statement.
\<close>

fun manifest_stmt :: "stmt \<Rightarrow> bool" where
  "manifest_stmt (ImportFrom m ns) = (m = ''setuptools'')"
| "manifest_stmt (CallStmt f kws) = (f = ''setup'')"
| "manifest_stmt (FunctionDef n) = False"
| "manifest_stmt (ClassDef n) = False"
| "manifest_stmt (Assign n v) = False"

fun manifest_only :: "stmt list \<Rightarrow> bool" where
  "manifest_only [] = True"
| "manifest_only (s # ss) = (manifest_stmt s \<and> manifest_only ss)"

text \<open>The names of the data model and of its two operations, as the specification has them.\<close>

definition core_names :: "string list" where
  "core_names = [''encode'', ''decode'', ''MetricFamily'', ''Metric'', ''LabelPair'']"

subsection \<open>Reading the keyword arguments\<close>






section \<open>Properties of the script\<close>

lemma setup_kwargs_distinct: "distinct (map fst setup_kwargs)"
  by (simp add: setup_kwargs_def)

lemma setup_py_calls: "calls setup_py = [(''setup'', setup_kwargs)]"
  by (simp add: setup_py_def)

lemma setup_py_bound: "module_bound setup_py = [''setup'']"
  by (simp add: module_bound_def setup_py_def)

lemma setup_py_defined: "module_defined setup_py = []"
  by (simp add: module_defined_def setup_py_def)

lemma setup_py_manifest_only: "manifest_only setup_py"
  by (simp add: setup_py_def)


text \<open>
  Claim C2.  The source of the repository has no algorithmic core: it is the one file
  \<open>client_model/setup.py\<close>, every statement of which is an import from \<open>setuptools\<close> or
  a call of \<open>setup\<close>; it defines no function, class or value at all, the only name it
  binds is the imported \<open>setup\<close>, and so none of \<open>encode\<close>, \<open>decode\<close>, \<open>MetricFamily\<close>,
  \<open>Metric\<close>, \<open>LabelPair\<close> is defined or bound anywhere in it.  Its single call is the call
  of \<open>setup\<close> with the packaging keywords.
\<close>

theorem repository_is_a_packaging_manifest:
  "map fst repository = [''client_model/setup.py'']
   \<and> manifest_only (concat (map snd repository))
   \<and> repository_defined = []
   \<and> repository_bound = [''setup'']
   \<and> set core_names \<inter> set repository_defined = {}
   \<and> set core_names \<inter> set repository_bound = {}
   \<and> calls (concat (map snd repository)) = [(''setup'', setup_kwargs)]
   \<and> map fst setup_kwargs =
       [''name'', ''version'', ''author'', ''author_email'', ''description'', ''license'',
        ''url'', ''packages'', ''package_dir'', ''requires'', ''platforms'', ''classifiers'']"
proof -
  have files: "map fst repository = [''client_model/setup.py'']"
    by (simp add: repository_def)
  have stmts: "concat (map snd repository) = setup_py"
    by (simp add: repository_def)
  have defined: "repository_defined = []"
    by (simp add: repository_defined_def repository_def setup_py_defined)
  have bound: "repository_bound = [''setup'']"
    by (simp add: repository_bound_def repository_def setup_py_bound)
  have core: "set core_names \<inter> set [''setup''] = {}"
    by (simp add: core_names_def)
  have keys: "map fst setup_kwargs =
       [''name'', ''version'', ''author'', ''author_email'', ''description'', ''license'',
        ''url'', ''packages'', ''package_dir'', ''requires'', ''platforms'', ''classifiers'']"
    by (simp add: setup_kwargs_def)
  from files stmts defined bound core keys setup_py_manifest_only setup_py_calls
  show ?thesis by simp
qed


end
